theory Spec2Isabelle
  imports Main "HOL-Library.Word"
begin

unbundle bit_operations_syntax

section \<open>Data model (scsi.h, sbp2.h)\<close>

type_synonym u8 = "8 word"
type_synonym u16 = "16 word"

text \<open>\<^verbatim>\<open>typedef struct { uint8_t sense_key; uint8_t asc; uint8_t ascq; bool valid; } SenseData;\<close>\<close>

record SenseData =
  sense_key :: u8
  asc :: u8
  ascq :: u8
  valid :: bool

text \<open>
  The module-level state of scsi.c: \<^verbatim>\<open>static SenseData g_last_sense = {0};\<close>.
  Every function of the C code that reads or writes it takes and returns this record.
\<close>

record globals =
  g_last_sense :: SenseData

definition globals_init :: globals where
  "globals_init = \<lparr>g_last_sense = \<lparr>sense_key = 0, asc = 0, ascq = 0, valid = False\<rparr>\<rparr>"

section \<open>Sense decoder (scsi.c)\<close>

definition scsi_get_last_sense :: "globals \<Rightarrow> SenseData" where
  "scsi_get_last_sense g = g_last_sense g"

definition scsi_set_sense :: "u8 \<Rightarrow> u8 \<Rightarrow> u8 \<Rightarrow> globals \<Rightarrow> globals" where
  "scsi_set_sense k a q g =
     g\<lparr>g_last_sense := (g_last_sense g)\<lparr>sense_key := k, asc := a, ascq := q, valid := True\<rparr>\<rparr>"

text \<open>
  \<^verbatim>\<open>const char *scsi_sense_string(SenseData *sense)\<close>. The pointer may be NULL
  (\<open>None\<close>). The \<^verbatim>\<open>switch\<close> on the sense key is the outer chain of tests, in the
  order of its \<^verbatim>\<open>case\<close> labels.
\<close>

definition scsi_sense_string :: "SenseData option \<Rightarrow> string" where
  "scsi_sense_string sense =
     (case sense of
        None \<Rightarrow> ''No sense data''
      | Some s \<Rightarrow>
          if \<not> valid s then ''No sense data''
          else if sense_key s = 0x00 then ''No sense''
          else if sense_key s = 0x02 then
            (if asc s = 0x04 \<and> ascq s = 0x00 then ''Not ready, cause not reportable''
             else if asc s = 0x04 \<and> ascq s = 0x01 then ''Becoming ready''
             else if asc s = 0x04 \<and> ascq s = 0x02 then ''Need INITIALIZE ELEMENT STATUS''
             else if asc s = 0x04 \<and> ascq s = 0x03 then ''Manual intervention required''
             else if asc s = 0x3A then ''Medium not present''
             else ''Not ready'')
          else if sense_key s = 0x05 then
            (if asc s = 0x21 then ''Invalid element address''
             else if asc s = 0x24 then ''Invalid field in CDB''
             else if asc s = 0x3B then
               (if ascq s = 0x0D then ''Medium destination full''
                else if ascq s = 0x0E then ''Medium source empty''
                else ''Element position error'')
             else ''Illegal request'')
          else if sense_key s = 0x06 then
            (if asc s = 0x28 then ''Medium may have changed''
             else if asc s = 0x29 then ''Power on or reset''
             else ''Unit attention'')
          else if sense_key s = 0x0B then
            (if asc s = 0x3B then
               (if ascq s = 0x0D then ''Medium destination full''
                else if ascq s = 0x0E then ''Medium source empty''
                else ''Element position error'')
             else ''Aborted command'')
          else ''Unknown error'')"

text \<open>
  The mapping table of section 4.1 of the specification, row by row, as a partial
  function of (key, ASC, ASCQ); \<open>None\<close> where no row applies. The text of the row
  (0x02, 0x04, 0x02) is a parameter, so that the table as the specification prints it and
  the table with the string of the code differ in that one entry only.
\<close>

definition sense_table :: "string \<Rightarrow> SenseData \<Rightarrow> string option" where
  "sense_table row_02_04_02 s =
     (if sense_key s = 0x00 then Some ''No sense''
      else if sense_key s = 0x02 \<and> asc s = 0x04 \<and> ascq s = 0x00
        then Some ''Not ready, cause not reportable''
      else if sense_key s = 0x02 \<and> asc s = 0x04 \<and> ascq s = 0x01 then Some ''Becoming ready''
      else if sense_key s = 0x02 \<and> asc s = 0x04 \<and> ascq s = 0x02 then Some row_02_04_02
      else if sense_key s = 0x02 \<and> asc s = 0x04 \<and> ascq s = 0x03
        then Some ''Manual intervention required''
      else if sense_key s = 0x02 \<and> asc s = 0x3A then Some ''Medium not present''
      else if sense_key s = 0x05 \<and> asc s = 0x21 then Some ''Invalid element address''
      else if sense_key s = 0x05 \<and> asc s = 0x24 then Some ''Invalid field in CDB''
      else if (sense_key s = 0x05 \<or> sense_key s = 0x0B) \<and> asc s = 0x3B \<and> ascq s = 0x0D
        then Some ''Medium destination full''
      else if (sense_key s = 0x05 \<or> sense_key s = 0x0B) \<and> asc s = 0x3B \<and> ascq s = 0x0E
        then Some ''Medium source empty''
      else if (sense_key s = 0x05 \<or> sense_key s = 0x0B) \<and> asc s = 0x3B
        then Some ''Element position error''
      else if sense_key s = 0x06 \<and> asc s = 0x28 then Some ''Medium may have changed''
      else if sense_key s = 0x06 \<and> asc s = 0x29 then Some ''Power on or reset''
      else None)"

definition spec_sense_table :: "SenseData \<Rightarrow> string option" where
  "spec_sense_table = sense_table ''Needs INITIALIZE ELEMENT STATUS''"

text \<open>
  \<^verbatim>\<open>static void parse_sense(const uint8_t *sense_buf, size_t len)\<close>. The buffer is
  given with its bytes, \<^verbatim>\<open>len\<close> is their number; \<open>None\<close> is the NULL pointer.
  \<^verbatim>\<open>g_last_sense.valid\<close> is cleared first; the sense key is stored after the
  response-code test, \<^verbatim>\<open>asc\<close> only when \<^verbatim>\<open>len >= 13\<close>, \<^verbatim>\<open>ascq\<close> only
  when \<^verbatim>\<open>len >= 14\<close>.
\<close>

definition parse_sense :: "u8 list option \<Rightarrow> globals \<Rightarrow> globals" where
  "parse_sense sense_buf g =
     (let s0 = (g_last_sense g)\<lparr>valid := False\<rparr> in
      case sense_buf of
        None \<Rightarrow> g\<lparr>g_last_sense := s0\<rparr>
      | Some bytes \<Rightarrow>
          if length bytes < 8 then g\<lparr>g_last_sense := s0\<rparr>
          else
            let response_code = (bytes ! 0) AND 0x7F in
            if response_code \<noteq> 0x70 \<and> response_code \<noteq> 0x71 then g\<lparr>g_last_sense := s0\<rparr>
            else
              let s1 = s0\<lparr>sense_key := (bytes ! 2) AND 0x0F\<rparr>;
                  s2 = (if 13 \<le> length bytes then s1\<lparr>asc := bytes ! 12\<rparr> else s1);
                  s3 = (if 14 \<le> length bytes then s2\<lparr>ascq := bytes ! 13\<rparr> else s2)
              in g\<lparr>g_last_sense := s3\<lparr>valid := True\<rparr>\<rparr>)"

section \<open>Changer connection and CDB transport (sbp2.h, sbp2.c)\<close>

datatype BackendType = BACKEND_NONE | BACKEND_SCSITASK | BACKEND_SBP2

text \<open>
  \<^verbatim>\<open>ChangerConnection\<close>. \<^verbatim>\<open>io_service_t\<close> is a port name, \<open>0\<close> being
  \<^verbatim>\<open>IO_OBJECT_NULL\<close>; an interface pointer is \<open>None\<close> when NULL and \<open>Some h\<close>
  otherwise, \<open>h\<close> naming the object it points to.
\<close>

record ChangerConnection =
  backend :: BackendType
  service :: nat
  scsi_device :: "nat option"
  has_exclusive :: bool
  lun :: "nat option"
  login :: "nat option"
  connected :: bool

text \<open>
  The calls the connection layer makes on the operating system's objects, in the order
  it makes them: the releases of \<^verbatim>\<open>changer_disconnect\<close>, and the submission of a
  command by either backend (with the CDB and the timeout it was given).
\<close>

datatype io_event =
    ReleaseExclusiveAccess nat
  | ReleaseSCSIDevice nat
  | SubmitLogout nat
  | ReleaseLogin nat
  | RemoveCallbackDispatcher nat
  | CloseLUN nat
  | ReleaseLUN nat
  | IOObjectRelease nat
  | ExecuteTaskSync "u8 list" nat
  | SubmitORB "u8 list" nat

text \<open>
  What the operating system and the device answer to one command; it is the input of
  the model that the C code gets from IOKit. For the SCSITask backend: whether
  \<^verbatim>\<open>CreateSCSITask\<close> gave a task, whether \<^verbatim>\<open>ExecuteTaskSync\<close> returned
  \<^verbatim>\<open>kIOReturnSuccess\<close>, whether the task status is \<^verbatim>\<open>kSCSITaskStatus_GOOD\<close>, and
  the three fields read from the \<^verbatim>\<open>SCSI_Sense_Data\<close> it filled. For the SBP-2
  backend: whether \<^verbatim>\<open>createORB\<close> gave an ORB, whether \<^verbatim>\<open>submitORB\<close> succeeded,
  whether the status callback fired before \<^verbatim>\<open>runloop_wait\<close> gave up, and whether
  its event was \<^verbatim>\<open>kFWSBP2NormalCommandStatus\<close>. \<open>data_in\<close> are the bytes the
  target sends for a read.
\<close>

record cdb_reply =
  task_created :: bool
  kr_success :: bool
  status_good :: bool
  SENSE_KEY :: u8
  ADDITIONAL_SENSE_CODE :: u8
  ADDITIONAL_SENSE_CODE_QUALIFIER :: u8
  orb_created :: bool
  orb_submitted :: bool
  status_notified :: bool
  event_normal :: bool
  data_in :: "u8 list"

text \<open>
  Modelled from the spec: the type \<^verbatim>\<open>SCSI_Sense_Data\<close> is declared in IOKit
  (\<^verbatim>\<open>SCSICmds_REQUEST_SENSE_Defs.h\<close>), not in the repository. \<^verbatim>\<open>execute_cdb_scsitask\<close>
  declares it zeroed (\<^verbatim>\<open>SCSI_Sense_Data sense = {0};\<close>) and \<^verbatim>\<open>ExecuteTaskSync\<close>
  writes the sense bytes it received over its beginning. In the fixed format of section
  4.1 the sense key is byte 2, the additional sense code byte 12 and its qualifier byte
  13; a field that lies beyond the bytes received keeps its zero. \<open>auto_sense bytes reply\<close>
  is \<open>reply\<close> with the three fields as sense data \<open>bytes\<close> leaves them.
\<close>

definition auto_sense :: "u8 list \<Rightarrow> cdb_reply \<Rightarrow> cdb_reply" where
  "auto_sense bytes reply =
     reply\<lparr>SENSE_KEY := (if 2 < length bytes then bytes ! 2 else 0),
           ADDITIONAL_SENSE_CODE := (if 12 < length bytes then bytes ! 12 else 0),
           ADDITIONAL_SENSE_CODE_QUALIFIER := (if 13 < length bytes then bytes ! 13 else 0)\<rparr>"

definition DIR_NONE :: int where "DIR_NONE = 0"
definition DIR_READ :: int where "DIR_READ = 1"
definition DIR_WRITE :: int where "DIR_WRITE = 2"

text \<open>
  A data buffer is the list of its \<^verbatim>\<open>buffer_len\<close> bytes; the empty list stands for
  \<^verbatim>\<open>(NULL, 0)\<close>, which is how the command layer passes no buffer. A read into the
  buffer: the bytes received overwrite its beginning, at most as many as the buffer holds;
  the rest of the buffer keeps its contents.
\<close>

definition transfer_in :: "u8 list \<Rightarrow> u8 list \<Rightarrow> u8 list" where
  "transfer_in received buffer = take (length buffer) received @ drop (length received) buffer"

text \<open>
  \<^verbatim>\<open>execute_cdb_scsitask\<close>. The result is the return code, the buffer after the
  call, the module state and the calls made. \<^verbatim>\<open>conn->scsi_device\<close> is dereferenced
  without a test; \<^verbatim>\<open>connect_scsitask\<close> sets it before it sets the backend.
\<close>

definition execute_cdb_scsitask ::
  "ChangerConnection \<Rightarrow> u8 list \<Rightarrow> u8 list \<Rightarrow> int \<Rightarrow> nat \<Rightarrow> cdb_reply \<Rightarrow> globals
     \<Rightarrow> int \<times> u8 list \<times> globals \<times> io_event list" where
  "execute_cdb_scsitask conn cdb buffer direction timeout_ms reply g =
     (if \<not> task_created reply then (-1, buffer, g, [])
      else
        let buffer' = (if direction = DIR_READ then transfer_in (data_in reply) buffer
                       else buffer);
            calls = [ExecuteTaskSync cdb timeout_ms];
            sk = SENSE_KEY reply AND 0x0F;
            a = ADDITIONAL_SENSE_CODE reply;
            q = ADDITIONAL_SENSE_CODE_QUALIFIER reply
        in
          if \<not> kr_success reply then
            (if sk \<noteq> 0 \<or> a \<noteq> 0 \<or> q \<noteq> 0 then (-1, buffer', scsi_set_sense sk a q g, calls)
             else (-1, buffer', g, calls))
          else if \<not> status_good reply then (-1, buffer', scsi_set_sense sk a q g, calls)
          else (0, buffer', g, calls))"

text \<open>
  \<^verbatim>\<open>execute_cdb_sbp2\<close>. A data buffer is attached only when the direction is not
  \<^verbatim>\<open>DIR_NONE\<close> and the buffer is neither NULL nor of length 0. No path of this backend
  stores sense data.
\<close>

definition execute_cdb_sbp2 ::
  "ChangerConnection \<Rightarrow> u8 list \<Rightarrow> u8 list \<Rightarrow> int \<Rightarrow> nat \<Rightarrow> cdb_reply \<Rightarrow> globals
     \<Rightarrow> int \<times> u8 list \<times> globals \<times> io_event list" where
  "execute_cdb_sbp2 conn cdb buffer direction timeout_ms reply g =
     (if \<not> orb_created reply then (-1, buffer, g, [])
      else if \<not> orb_submitted reply then (-1, buffer, g, [SubmitORB cdb timeout_ms])
      else
        let buffer' = (if direction = DIR_READ \<and> 0 < length buffer
                       then transfer_in (data_in reply) buffer
                       else buffer);
            calls = [SubmitORB cdb timeout_ms]
        in
          if \<not> status_notified reply then (-1, buffer', g, calls)
          else if \<not> event_normal reply then (-1, buffer', g, calls)
          else (0, buffer', g, calls))"

text \<open>\<^verbatim>\<open>changer_execute_cdb\<close>: a NULL or unconnected connection is refused first.\<close>

definition changer_execute_cdb ::
  "ChangerConnection option \<Rightarrow> u8 list \<Rightarrow> u8 list \<Rightarrow> int \<Rightarrow> nat \<Rightarrow> cdb_reply \<Rightarrow> globals
     \<Rightarrow> int \<times> u8 list \<times> globals \<times> io_event list" where
  "changer_execute_cdb conn cdb buffer direction timeout_ms reply g =
     (case conn of
        None \<Rightarrow> (-1, buffer, g, [])
      | Some c \<Rightarrow>
          if \<not> connected c then (-1, buffer, g, [])
          else if backend c = BACKEND_SCSITASK
            then execute_cdb_scsitask c cdb buffer direction timeout_ms reply g
          else if backend c = BACKEND_SBP2
            then execute_cdb_sbp2 c cdb buffer direction timeout_ms reply g
          else (-1, buffer, g, []))"

definition disconnect_scsitask :: "ChangerConnection \<Rightarrow> ChangerConnection \<times> io_event list" where
  "disconnect_scsitask conn =
     (case scsi_device conn of
        None \<Rightarrow> (conn, [])
      | Some d \<Rightarrow>
          (conn\<lparr>scsi_device := None\<rparr>,
           (if has_exclusive conn then [ReleaseExclusiveAccess d] else []) @ [ReleaseSCSIDevice d]))"

definition disconnect_sbp2 :: "ChangerConnection \<Rightarrow> ChangerConnection \<times> io_event list" where
  "disconnect_sbp2 conn =
     (let (c1, e1) = (case login conn of
                        None \<Rightarrow> (conn, [])
                      | Some l \<Rightarrow> (conn\<lparr>login := None\<rparr>, [SubmitLogout l, ReleaseLogin l]));
          (c2, e2) = (case lun c1 of
                        None \<Rightarrow> (c1, [])
                      | Some u \<Rightarrow> (c1\<lparr>lun := None\<rparr>,
                                    [RemoveCallbackDispatcher u, CloseLUN u, ReleaseLUN u]))
      in (c2, e1 @ e2))"

text \<open>
  \<^verbatim>\<open>changer_disconnect\<close>: the backend's resources, then the service handle, then
  \<^verbatim>\<open>connected = false\<close>. The backend tag itself is left as it was.
\<close>

definition changer_disconnect ::
  "ChangerConnection option \<Rightarrow> ChangerConnection option \<times> io_event list" where
  "changer_disconnect conn =
     (case conn of
        None \<Rightarrow> (None, [])
      | Some c \<Rightarrow>
          let (c1, e1) = (if backend c = BACKEND_SCSITASK then disconnect_scsitask c
                          else if backend c = BACKEND_SBP2 then disconnect_sbp2 c
                          else (c, []));
              (c2, e2) = (if service c1 \<noteq> 0 then (c1\<lparr>service := 0\<rparr>, [IOObjectRelease (service c1)])
                          else (c1, []))
          in (Some (c2\<lparr>connected := False\<rparr>), e1 @ e2))"

section \<open>Media-changer command layer (scsi.h, scsi.c)\<close>

record ElementMap =
  transport :: u16
  slots :: "u16 list option"
  slot_count :: nat
  drive :: u16
  ie :: u16
  has_ie :: bool

record ElementStatus =
  address :: u16
  full :: bool
  except :: bool
  source :: u16
  source_valid :: bool

definition ELEM_STORAGE :: u8 where "ELEM_STORAGE = 0x02"

text \<open>
  Big-endian fields: \<^verbatim>\<open>(b[i] << 8) | b[i + 1]\<close> stored in a \<^verbatim>\<open>uint16_t\<close>, and
  \<^verbatim>\<open>(b[i] << 16) | (b[i + 1] << 8) | b[i + 2]\<close> stored in a \<^verbatim>\<open>uint32_t\<close>.
\<close>

definition be16 :: "u8 list \<Rightarrow> nat \<Rightarrow> u16" where
  "be16 b i = push_bit 8 (ucast (b ! i)) OR ucast (b ! (i + 1))"

definition be24 :: "u8 list \<Rightarrow> nat \<Rightarrow> 32 word" where
  "be24 b i = push_bit 16 (ucast (b ! i)) OR push_bit 8 (ucast (b ! (i + 1))) OR ucast (b ! (i + 2))"

text \<open>
  A device is the sequence of its answers: \<open>dev k\<close> answers the \<open>k\<close>-th command a
  function issues (counted from 0).
\<close>

definition scsi_test_unit_ready ::
  "ChangerConnection option \<Rightarrow> cdb_reply \<Rightarrow> globals \<Rightarrow> int \<times> globals \<times> io_event list" where
  "scsi_test_unit_ready conn reply g =
     (let (rc, buffer', g', ev) = changer_execute_cdb conn [0x00, 0, 0, 0, 0, 0] [] DIR_NONE 10000 reply g
      in (rc, g', ev))"

text \<open>
  The loop that opens \<^verbatim>\<open>scsi_mode_sense_element\<close>:
  \<^verbatim>\<open>for (int i = 0; i < 3; i++) { if (scsi_test_unit_ready(conn) == 0) break; usleep(100000); }\<close>.
  It returns the number of commands issued, the module state and the calls made.
\<close>

function tur_loop ::
  "ChangerConnection option \<Rightarrow> (nat \<Rightarrow> cdb_reply) \<Rightarrow> nat \<Rightarrow> globals \<Rightarrow> io_event list
     \<Rightarrow> nat \<times> globals \<times> io_event list" where
  "tur_loop conn dev i g ev =
     (if i < 3 then
        (let (rc, g', e) = scsi_test_unit_ready conn (dev i) g in
         if rc = 0 then (i + 1, g', ev @ e)
         else tur_loop conn dev (i + 1) g' (ev @ e))
      else (i, g, ev))"
  by pat_completeness auto
termination
  by (relation "measure (\<lambda>(conn, dev, i, g, ev). 3 - i)") auto

text \<open>
  \<^verbatim>\<open>for (uint16_t i = 0; i < num_storage; i++) map->slots[i] = first_storage + i;\<close>
  The sum is truncated to 16 bits by the store.
\<close>

function fill_slots :: "u16 \<Rightarrow> u16 \<Rightarrow> u16 \<Rightarrow> u16 list \<Rightarrow> u16 list" where
  "fill_slots first_storage num_storage i sl =
     (if i < num_storage
      then fill_slots first_storage num_storage (i + 1) (sl[unat i := first_storage + i])
      else sl)"
  by pat_completeness auto
termination
proof (relation "measure (\<lambda>(first_storage, num_storage, i, sl). unat num_storage - unat i)")
  show "wf (measure (\<lambda>(first_storage, num_storage, i, sl). unat num_storage - unat i))"
    by simp
next
  fix first_storage num_storage i :: u16 and sl :: "u16 list"
  assume less: "i < num_storage"
  then have "unat i < unat num_storage"
    by (simp add: word_less_nat_alt)
  moreover have "unat num_storage < 2 ^ 16"
    using unsigned_less [of num_storage, where 'a = nat] by simp
  ultimately have "unat i + 1 < 2 ^ 16"
    by linarith
  then have "unat (i + 1) = unat i + 1"
    by (simp add: unat_word_ariths)
  with \<open>unat i < unat num_storage\<close> show "((first_storage, num_storage, i + 1, sl[unat i := first_storage + i]),
      (first_storage, num_storage, i, sl))
    \<in> measure (\<lambda>(first_storage, num_storage, i, sl). unat num_storage - unat i)"
    by simp
qed

text \<open>
  The part of \<^verbatim>\<open>scsi_mode_sense_element\<close> that follows the successful command: the
  parse of the 256-byte buffer into the caller's map \<open>m\<close>. The function assigns some
  fields of the map and leaves the others as they were passed in. \<open>calloc_ok\<close> tells
  whether the allocation of the slot array succeeds. The buffer is read only below index
  256, which the test on \<^verbatim>\<open>page_offset + 18\<close> ensures.
\<close>

definition mode_page_offset :: "u8 list \<Rightarrow> nat" where
  "mode_page_offset buf = 8 + unat (be16 buf 6)"

definition reported_first_storage :: "u8 list \<Rightarrow> u16" where
  "reported_first_storage buf = be16 buf (mode_page_offset buf + 2 + 4)"

definition reported_num_storage :: "u8 list \<Rightarrow> u16" where
  "reported_num_storage buf = be16 buf (mode_page_offset buf + 2 + 6)"

definition mode_sense_parse :: "u8 list \<Rightarrow> ElementMap \<Rightarrow> bool \<Rightarrow> int \<times> ElementMap" where
  "mode_sense_parse buf m calloc_ok =
     (let alloc = 256;
          page_offset = mode_page_offset buf
      in
        if page_offset + 18 > alloc then (-1, m)
        else
          let page_code = (buf ! page_offset) AND 0x3F;
              page_len = buf ! (page_offset + 1)
          in
            if page_code \<noteq> 0x1D \<or> page_len < 16 then (-1, m)
            else
              let p = page_offset + 2;
                  m1 = m\<lparr>transport := be16 buf p\<rparr>;
                  first_storage = reported_first_storage buf;
                  num_storage = reported_num_storage buf;
                  first_ie = be16 buf (p + 8);
                  num_ie = be16 buf (p + 10);
                  m2 = m1\<lparr>drive := be16 buf (p + 12)\<rparr>
              in
                if num_storage > 0 \<and> \<not> calloc_ok then (-1, m2\<lparr>slots := None\<rparr>)
                else
                  let m3 = (if num_storage > 0
                            then m2\<lparr>slots := Some (fill_slots first_storage num_storage 0
                                                       (replicate (unat num_storage) 0)),
                                    slot_count := unat num_storage\<rparr>
                            else m2);
                      m4 = (if num_ie > 0 then m3\<lparr>ie := first_ie, has_ie := True\<rparr> else m3)
                  in (0, m4))"

text \<open>
  \<^verbatim>\<open>scsi_mode_sense_element\<close>. \<open>emap\<close> is the caller's \<^verbatim>\<open>ElementMap\<close> (\<open>None\<close>
  for a NULL pointer). Up to three TEST UNIT READY, then MODE SENSE(10) for page 0x1D into
  a zeroed buffer of 256 bytes, then the parse.
\<close>

definition mode_sense_cdb :: "u8 list" where
  "mode_sense_cdb = [0x5A, 0x08, 0x1D, 0, 0, 0, 0, 0x01, 0x00, 0]"

definition scsi_mode_sense_element ::
  "ChangerConnection option \<Rightarrow> ElementMap option \<Rightarrow> (nat \<Rightarrow> cdb_reply) \<Rightarrow> bool \<Rightarrow> globals
     \<Rightarrow> int \<times> ElementMap option \<times> globals \<times> io_event list" where
  "scsi_mode_sense_element conn emap dev calloc_ok g =
     (case (conn, emap) of
        (None, _) \<Rightarrow> (-1, emap, g, [])
      | (_, None) \<Rightarrow> (-1, emap, g, [])
      | (Some c, Some m) \<Rightarrow>
          let (k, g1, ev1) = tur_loop conn dev 0 g [];
              (rc, buf, g2, ev2) =
                 changer_execute_cdb conn mode_sense_cdb (replicate 256 0) DIR_READ 10000 (dev k) g1;
              ev = ev1 @ ev2
          in
            if rc \<noteq> 0 then (rc, emap, g2, ev)
            else
              let (rc', m') = mode_sense_parse buf m calloc_ok
              in (rc', Some m', g2, ev))"

text \<open>
  The buffer \<^verbatim>\<open>scsi_mode_sense_element\<close> parses: the zeroed 256 bytes, overwritten
  from the start by the answer to the command that follows the TEST UNIT READY loop.
\<close>

definition mode_sense_buf :: "ChangerConnection option \<Rightarrow> (nat \<Rightarrow> cdb_reply) \<Rightarrow> globals \<Rightarrow> u8 list" where
  "mode_sense_buf conn dev g =
     transfer_in (data_in (dev (fst (tur_loop conn dev 0 g [])))) (replicate 256 0)"

text \<open>
  READ ELEMENT STATUS. Offsets and lengths are \<^verbatim>\<open>uint32_t\<close> in the source and
  natural numbers here: an offset never exceeds \<^verbatim>\<open>end\<close>, which is at most
  \<^verbatim>\<open>alloc\<close> \<open>\<le>\<close> 65535, a descriptor length is below \<open>2\<^sup>1\<^sup>6\<close> and a page length
  below \<open>2\<^sup>2\<^sup>4\<close>, so no sum the function forms reaches \<open>2\<^sup>3\<^sup>2\<close>.

  \<^verbatim>\<open>uint32_t alloc = 8 + 8 + (count * 24); if (alloc < 4096) alloc = 4096;
  if (alloc > 65535) alloc = 65535;\<close>
\<close>

definition res_alloc :: "u16 \<Rightarrow> nat" where
  "res_alloc count =
     (let alloc = 8 + 8 + unat count * 24;
          alloc1 = (if alloc < 4096 then 4096 else alloc)
      in if alloc1 > 65535 then 65535 else alloc1)"

definition res_cdb :: "u8 \<Rightarrow> u16 \<Rightarrow> u16 \<Rightarrow> nat \<Rightarrow> u8 list" where
  "res_cdb element_type start count alloc =
     [0xB8, element_type AND 0x0F,
      ucast (drop_bit 8 start), ucast start,
      ucast (drop_bit 8 count), ucast count,
      word_of_nat (drop_bit 16 alloc), word_of_nat (drop_bit 8 alloc), word_of_nat alloc,
      0, 0, 0]"

text \<open>
  \<^verbatim>\<open>for (uint16_t i = 0; i < desc_len && i < 12; i++) if (buf[offset + i] != 0) ...\<close>:
  the first \<open>min desc_len 12\<close> bytes of the descriptor are all zero.
\<close>

definition all_zero :: "u8 list \<Rightarrow> nat \<Rightarrow> nat \<Rightarrow> bool" where
  "all_zero buf offset desc_len = list_all (\<lambda>i. buf ! (offset + i) = 0) [0..<min desc_len 12]"

text \<open>
  The assignments to \<^verbatim>\<open>statuses[status_idx]\<close>. The source and its validity flag are
  written only when the descriptor has at least 12 bytes; otherwise the entry keeps the
  values the caller's array held. The caller's array holds at least \<^verbatim>\<open>max_statuses\<close>
  entries.
\<close>

definition store_status ::
  "u8 list \<Rightarrow> nat \<Rightarrow> nat \<Rightarrow> ElementStatus list \<Rightarrow> nat \<Rightarrow> ElementStatus list" where
  "store_status buf offset desc_len statuses status_idx =
     (let addr = be16 buf offset;
          flags = buf ! (offset + 2);
          e1 = (statuses ! status_idx)\<lparr>address := addr,
                                      full := (flags AND 0x01 \<noteq> 0),
                                      except := (flags AND 0x04 \<noteq> 0)\<rparr>;
          e2 = (if desc_len \<ge> 12
                then e1\<lparr>source_valid := (buf ! (offset + 9) AND 0x80 \<noteq> 0),
                        source := be16 buf (offset + 10)\<rparr>
                else e1)
      in statuses[status_idx := e2])"

text \<open>
  The body of the descriptor loop, for the descriptor at \<open>offset\<close> of a page of type
  \<open>ty\<close>: the entry is stored and the index advanced unless the descriptor is all zero
  and the page is a storage page; the offset advances by the descriptor length either way.
\<close>

definition descriptor_step ::
  "u8 list \<Rightarrow> u8 \<Rightarrow> nat \<Rightarrow> nat \<times> ElementStatus list \<times> nat \<Rightarrow> nat \<times> ElementStatus list \<times> nat" where
  "descriptor_step buf ty desc_len st =
     (case st of (offset, statuses, status_idx) \<Rightarrow>
        if \<not> all_zero buf offset desc_len \<or> ty \<noteq> ELEM_STORAGE
        then (offset + desc_len, store_status buf offset desc_len statuses status_idx, status_idx + 1)
        else (offset + desc_len, statuses, status_idx))"

text \<open>
  \<^verbatim>\<open>while (offset + desc_len <= page_end && status_idx < max_statuses)\<close>, with the
  exit \<^verbatim>\<open>if (desc_len < 2) { offset = page_end; break; }\<close> at its head.
\<close>

function parse_descriptors ::
  "u8 list \<Rightarrow> u8 \<Rightarrow> nat \<Rightarrow> nat \<Rightarrow> nat \<Rightarrow> nat \<times> ElementStatus list \<times> nat
     \<Rightarrow> nat \<times> ElementStatus list \<times> nat" where
  "parse_descriptors buf ty desc_len page_end max_statuses (offset, statuses, status_idx) =
     (if offset + desc_len \<le> page_end \<and> status_idx < max_statuses then
        (if desc_len < 2 then (page_end, statuses, status_idx)
         else parse_descriptors buf ty desc_len page_end max_statuses
                (descriptor_step buf ty desc_len (offset, statuses, status_idx)))
      else (offset, statuses, status_idx))"
  by pat_completeness auto
termination
  by (relation "measure (\<lambda>(buf, ty, desc_len, page_end, max_statuses, offset, statuses, status_idx).
                    Suc page_end - offset)")
     (auto simp: descriptor_step_def)

text \<open>
  \<^verbatim>\<open>while (offset + 8 <= end && status_idx < max_statuses)\<close>: one element-status page
  per round. A page whose header gives a zero descriptor length or a zero byte count
  ends the walk. \<open>r_end\<close> is the variable \<^verbatim>\<open>end\<close>.
\<close>

function parse_pages ::
  "u8 list \<Rightarrow> nat \<Rightarrow> nat \<Rightarrow> nat \<times> ElementStatus list \<times> nat \<Rightarrow> ElementStatus list \<times> nat" where
  "parse_pages buf r_end max_statuses (offset, statuses, status_idx) =
     (if offset + 8 \<le> r_end \<and> status_idx < max_statuses then
        (let ty = (buf ! offset) AND 0x0F;
             desc_len = unat (be16 buf (offset + 2));
             page_bytes = unat (be24 buf (offset + 5));
             offset1 = offset + 8
         in
           if desc_len = 0 \<or> page_bytes = 0 then (statuses, status_idx)
           else
             let page_end = (if offset1 + page_bytes > r_end then r_end else offset1 + page_bytes);
                 st = parse_descriptors buf ty desc_len page_end max_statuses
                        (offset1, statuses, status_idx);
                 st' = (if fst st < page_end then (page_end, snd st) else st)
             in parse_pages buf r_end max_statuses st')
      else (statuses, status_idx))"
  by pat_completeness auto
termination
  by (relation "measure (\<lambda>(buf, r_end, max_statuses, offset, statuses, status_idx). r_end - offset)")
     (auto simp del: parse_descriptors.simps split: if_splits prod.splits)

text \<open>
  \<^verbatim>\<open>scsi_read_element_status\<close>. \<open>statuses\<close> is the caller's array (\<open>None\<close> for
  NULL) and is returned as the function leaves it; \<open>calloc_ok\<close> tells whether the
  allocation of the response buffer succeeds. The buffer has \<^verbatim>\<open>alloc\<close> bytes,
  zeroed, and the device's answer overwrites its beginning. Every index the parser reads
  is below \<^verbatim>\<open>alloc\<close>, with one exception: the flags byte \<^verbatim>\<open>buf[offset + 2]\<close> of a
  2-byte descriptor that ends exactly at \<^verbatim>\<open>alloc\<close> lies one byte past the buffer,
  and its value is not determined (nor is \<open>buf ! alloc\<close> here).
\<close>

definition scsi_read_element_status ::
  "ChangerConnection option \<Rightarrow> u8 \<Rightarrow> u16 \<Rightarrow> u16 \<Rightarrow> ElementStatus list option \<Rightarrow> nat
     \<Rightarrow> cdb_reply \<Rightarrow> bool \<Rightarrow> globals
     \<Rightarrow> int \<times> ElementStatus list option \<times> globals \<times> io_event list" where
  "scsi_read_element_status conn element_type start count statuses max_statuses reply calloc_ok g =
     (case conn of
        None \<Rightarrow> (-1, statuses, g, [])
      | Some c \<Rightarrow>
          let alloc = res_alloc count in
          if \<not> calloc_ok then (-1, statuses, g, [])
          else
            let (rc, buf, g1, ev) =
                  changer_execute_cdb conn (res_cdb element_type start count alloc)
                    (replicate alloc 0) DIR_READ 30000 reply g
            in
              if rc \<noteq> 0 then (rc, statuses, g1, ev)
              else
                let first_elem = be16 buf 0;
                    num_elem = be16 buf 2;
                    report_bytes = unat (be24 buf 5)
                in
                  if report_bytes = 0 then (0, statuses, g1, ev)
                  else
                    (case statuses of
                       None \<Rightarrow> (0, None, g1, ev)
                     | Some sts \<Rightarrow>
                         let r_end = (if 8 + report_bytes > alloc then alloc else 8 + report_bytes);
                             (sts', status_idx) = parse_pages buf r_end max_statuses (8, sts, 0)
                         in (int status_idx, Some sts', g1, ev)))"

text \<open>The element count of the response header, \<^verbatim>\<open>num_elem\<close>, as the function reads it.\<close>

definition res_num_elem :: "u16 \<Rightarrow> cdb_reply \<Rightarrow> u16" where
  "res_num_elem count reply = be16 (transfer_in (data_in reply) (replicate (res_alloc count) 0)) 2"


declare tur_loop.simps [simp del]
declare fill_slots.simps [simp del]
declare parse_descriptors.simps [simp del]
declare parse_pages.simps [simp del]

section \<open>Optical-media locator (CChangerLib/mount.c and Discbot/Bridging/mount.c)\<close>

datatype media_class = kIODVDMediaClass | kIOCDMediaClass | kIOBDMediaClass

text \<open>
  The device registry, as the locator sees it. A query for a media class either fails
  (\<open>None\<close>: \<^verbatim>\<open>IOServiceGetMatchingServices\<close> did not return \<^verbatim>\<open>KERN_SUCCESS\<close>) or
  gives the matching instances in the order of the iterator. An instance is given by its
  \<^verbatim>\<open>"BSD Name"\<close> property: \<open>Some n\<close> when it has one that is a string, \<open>None\<close>
  otherwise. \<^verbatim>\<open>CFStringGetCString\<close> fails when the name with its terminator does
  not fit the buffer. The result \<open>Some n\<close> is the \<^verbatim>\<open>strdup\<close> copy handed to the
  caller, \<open>None\<close> is NULL. The second component lists the classes queried, in order.
\<close>

type_synonym registry = "media_class \<Rightarrow> string option list option"

definition first_service :: "string option list option \<Rightarrow> string option option" where
  "first_service r = (case r of Some (x # xs) \<Rightarrow> Some x | _ \<Rightarrow> None)"

definition get_cstring :: "nat \<Rightarrow> string option \<Rightarrow> string option" where
  "get_cstring bufsize prop =
     (case prop of None \<Rightarrow> None | Some n \<Rightarrow> if length n < bufsize then Some n else None)"

text \<open>
  \<^verbatim>\<open>mount_find_dvd_bsd_name\<close> of CChangerLib/mount.c: the DVD class, then the CD class
  if the first query gave no instance; the name is read from whichever instance was
  found, into 64 bytes.
\<close>

definition mount_find_dvd_bsd_name :: "registry \<Rightarrow> string option \<times> media_class list" where
  "mount_find_dvd_bsd_name reg =
     (let service1 = first_service (reg kIODVDMediaClass);
          (service2, queried) =
             (if service1 = None
              then (first_service (reg kIOCDMediaClass), [kIODVDMediaClass, kIOCDMediaClass])
              else (service1, [kIODVDMediaClass]))
      in (case service2 of
            None \<Rightarrow> (None, queried)
          | Some prop \<Rightarrow> (get_cstring 64 prop, queried)))"

text \<open>
  One of the three blocks of \<^verbatim>\<open>mount_find_dvd_bsd_name\<close> of
  Discbot/Bridging/mount.c: the name of the first instance of a class, read into 128
  bytes; NULL when the query fails, matches nothing, or the instance has no such name.
\<close>

definition bridging_try_class :: "registry \<Rightarrow> media_class \<Rightarrow> string option" where
  "bridging_try_class reg cls =
     (case first_service (reg cls) of
        None \<Rightarrow> None
      | Some prop \<Rightarrow> get_cstring 128 prop)"

text \<open>
  \<^verbatim>\<open>mount_find_dvd_bsd_name\<close> of Discbot/Bridging/mount.c: DVD, CD, Blu-ray, returning
  at the first block that produced a name.
\<close>

definition bridging_mount_find_dvd_bsd_name :: "registry \<Rightarrow> string option \<times> media_class list" where
  "bridging_mount_find_dvd_bsd_name reg =
     (case bridging_try_class reg kIODVDMediaClass of
        Some n \<Rightarrow> (Some n, [kIODVDMediaClass])
      | None \<Rightarrow>
          (case bridging_try_class reg kIOCDMediaClass of
             Some n \<Rightarrow> (Some n, [kIODVDMediaClass, kIOCDMediaClass])
           | None \<Rightarrow>
               (bridging_try_class reg kIOBDMediaClass,
                [kIODVDMediaClass, kIOCDMediaClass, kIOBDMediaClass])))"

section \<open>Disk-arbitration coordinator: eject (both mount.c)\<close>

text \<open>
  \<^verbatim>\<open>DADiskEjectOptions\<close> is a bit mask; \<^verbatim>\<open>kDADiskEjectOptionDefault\<close> is its zero.
\<close>

type_synonym DADiskEjectOptions = nat

definition kDADiskEjectOptionDefault :: DADiskEjectOptions where
  "kDADiskEjectOptionDefault = 0"

text \<open>
  What disk arbitration does with a request: the callback does not fire before the wait
  ends, or it fires, with the status of a dissenter or with none.
\<close>

datatype da_completion = NoCallback | Callback "int option"

text \<open>
  The disk-arbitration service: whether \<^verbatim>\<open>DASessionCreate\<close> gives a session, for
  which names \<^verbatim>\<open>DADiskCreateFromBSDName\<close> gives a disk, and how an eject request
  for a name ends, which may depend on the options of the request.
\<close>

record da_system =
  session_ok :: bool
  disk_ok :: "string \<Rightarrow> bool"
  eject_outcome :: "string \<Rightarrow> DADiskEjectOptions \<Rightarrow> da_completion"

datatype da_request = DADiskEject string DADiskEjectOptions

text \<open>\<^verbatim>\<open>if (strncmp(name, "/dev/", 5) == 0) name = name + 5;\<close>\<close>

definition strip_dev :: "string \<Rightarrow> string" where
  "strip_dev name = (if take 5 name = ''/dev/'' then drop 5 name else name)"

text \<open>
  \<^verbatim>\<open>mount_eject_disc\<close> of CChangerLib/mount.c. The result is the return value and the
  requests made to disk arbitration. \<^verbatim>\<open>(void)force;\<close> is all the function does with
  its flag.
\<close>

definition mount_eject_disc :: "da_system \<Rightarrow> string option \<Rightarrow> bool \<Rightarrow> int \<times> da_request list" where
  "mount_eject_disc sys bsd_name force =
     (case bsd_name of
        None \<Rightarrow> (-1, [])
      | Some n \<Rightarrow>
          let name = strip_dev n in
          if \<not> session_ok sys then (-1, [])
          else if \<not> disk_ok sys name then (-1, [])
          else
            let req = [DADiskEject name kDADiskEjectOptionDefault] in
            (case eject_outcome sys name kDADiskEjectOptionDefault of
               NoCallback \<Rightarrow> (-1, req)
             | Callback dissenter \<Rightarrow>
                 (case dissenter of Some status \<Rightarrow> (status, req) | None \<Rightarrow> (0, req))))"

text \<open>
  \<^verbatim>\<open>mount_eject_disc\<close> of Discbot/Bridging/mount.c. The name is not tested for NULL;
  \<^verbatim>\<open>snprintf(dev_path, 256, "/dev/%s", bsd_name)\<close> keeps at most 255 characters.
  \<^verbatim>\<open>options = force ? kDADiskEjectOptionDefault : kDADiskEjectOptionDefault;\<close>
\<close>

definition bridging_mount_eject_disc :: "da_system \<Rightarrow> string \<Rightarrow> bool \<Rightarrow> int \<times> da_request list" where
  "bridging_mount_eject_disc sys bsd_name force =
     (if \<not> session_ok sys then (-1, [])
      else
        let dev_path = take 255 (''/dev/'' @ bsd_name) in
        if \<not> disk_ok sys dev_path then (-1, [])
        else
          let options = (if force then kDADiskEjectOptionDefault else kDADiskEjectOptionDefault);
              req = [DADiskEject dev_path options]
          in
            (case eject_outcome sys dev_path options of
               NoCallback \<Rightarrow> (-1, req)
             | Callback dissenter \<Rightarrow>
                 (case dissenter of Some status \<Rightarrow> (status, req) | None \<Rightarrow> (0, req))))"

section \<open>Sample values for the concrete instances\<close>

text \<open>
  A connected SCSITask connection, a reply of a command that succeeds with the given
  data, and two MODE SENSE answers carrying the Element Address Assignment page: the
  changer of scenario S1 (transport 0x00E0, five slots from 0, drive 0x0100, no
  import/export element), and the same changer reporting no storage element.
\<close>

abbreviation sample_conn :: ChangerConnection where
  "sample_conn \<equiv> \<lparr>backend = BACKEND_SCSITASK, service = 1, scsi_device = Some 1,
     has_exclusive = True, lun = None, login = None, connected = True\<rparr>"

abbreviation good_reply :: "u8 list \<Rightarrow> cdb_reply" where
  "good_reply d \<equiv> \<lparr>task_created = True, kr_success = True, status_good = True,
     SENSE_KEY = 0, ADDITIONAL_SENSE_CODE = 0, ADDITIONAL_SENSE_CODE_QUALIFIER = 0,
     orb_created = False, orb_submitted = False, status_notified = False, event_normal = False,
     data_in = d\<rparr>"

abbreviation s1_response :: "u8 list" where
  "s1_response \<equiv> [0, 0x1A, 0, 0, 0, 0, 0, 0,
                    0x1D, 0x12, 0x00, 0xE0, 0, 1, 0, 0, 0, 5, 0, 0, 0, 0, 0x01, 0x00, 0, 1, 0, 0]"

abbreviation no_storage_response :: "u8 list" where
  "no_storage_response \<equiv> [0, 0x1A, 0, 0, 0, 0, 0, 0,
                    0x1D, 0x12, 0x00, 0xE0, 0, 1, 0, 0, 0, 0, 0, 0, 0, 0, 0x01, 0x00, 0, 1, 0, 0]"

text \<open>
  An element status with every field zero; a READ ELEMENT STATUS answer of 56 bytes with
  one storage page of two 20-byte descriptors (addresses 0x0010 and 0x0011, flags 0x01
  and 0x00, as in scenario S6), its header reporting \<open>num_elem\<close> elements; and an
  answer with one page of the given type holding a single 12-byte descriptor that is all
  zero (the descriptor lies in the zeroed rest of the buffer).
\<close>

abbreviation empty_status :: ElementStatus where
  "empty_status \<equiv> \<lparr>address = 0, full = False, except = False, source = 0, source_valid = False\<rparr>"

abbreviation s6_response :: "u8 \<Rightarrow> u8 list" where
  "s6_response num_elem \<equiv>
     [0x00, 0x10, 0x00, num_elem, 0, 0x00, 0x00, 0x30,
      0x02, 0, 0x00, 0x14, 0, 0x00, 0x00, 0x28,
      0x00, 0x10, 0x01, 0, 0, 0, 0, 0, 0, 0, 0, 0, 0, 0, 0, 0, 0, 0, 0, 0,
      0x00, 0x11, 0x00, 0, 0, 0, 0, 0, 0, 0, 0, 0, 0, 0, 0, 0, 0, 0, 0, 0]"


text \<open>
  A registry in which only the Blu-ray class has an instance, named "disk3"; and a
  disk-arbitration service that refuses an eject with default options (the callback
  brings a dissenter of status \<^verbatim>\<open>kDAReturnBusy\<close>, 0xF8DA0002 as an \<^verbatim>\<open>int\<close>) and
  would carry out an eject with any other options.
\<close>

abbreviation blu_ray_only :: registry where
  "blu_ray_only \<equiv> (\<lambda>cls. if cls = kIOBDMediaClass then Some [Some ''disk3''] else Some [])"

abbreviation eject_needs_force :: da_system where
  "eject_needs_force \<equiv>
     \<lparr>session_ok = True, disk_ok = (\<lambda>name. True),
      eject_outcome = (\<lambda>name options. if options = kDADiskEjectOptionDefault
                                        then Callback (Some (- 119930878)) else Callback None)\<rparr>"

section \<open>Sense decoder: properties\<close>

text \<open>
  Claim C2, as the code has it. For valid sense data that a row of the table of section
  4.1 covers, \<^verbatim>\<open>scsi_sense_string\<close> returns the text of that row, the row
  (0x02, 0x04, 0x02) reading "Need INITIALIZE ELEMENT STATUS"; in particular it returns
  that text for (0x02, 0x04, 0x02) and "Medium source empty" for (0x05, 0x3B, 0x0E).
\<close>

theorem sense_string_matches_table:
  "(valid s \<and> sense_table ''Need INITIALIZE ELEMENT STATUS'' s = Some m
      \<longrightarrow> scsi_sense_string (Some s) = m)
   \<and> scsi_sense_string (Some \<lparr>sense_key = 0x02, asc = 0x04, ascq = 0x02, valid = True\<rparr>)
       = ''Need INITIALIZE ELEMENT STATUS''
   \<and> scsi_sense_string (Some \<lparr>sense_key = 0x05, asc = 0x3B, ascq = 0x0E, valid = True\<rparr>)
       = ''Medium source empty''"
  by (auto simp: sense_table_def scsi_sense_string_def split: if_splits)

theorem sense_string_matches_table_witness:
  "valid \<lparr>sense_key = 0x0B, asc = 0x3B, ascq = 0x0D, valid = True\<rparr>
   \<and> sense_table ''Need INITIALIZE ELEMENT STATUS''
        \<lparr>sense_key = 0x0B, asc = 0x3B, ascq = 0x0D, valid = True\<rparr> = Some ''Medium destination full''
   \<and> scsi_sense_string (Some \<lparr>sense_key = 0x0B, asc = 0x3B, ascq = 0x0D, valid = True\<rparr>)
        = ''Medium destination full''"
  using sense_string_matches_table
    [of "\<lparr>sense_key = 0x0B, asc = 0x3B, ascq = 0x0D, valid = True\<rparr>" "''Medium destination full''"]
  by (simp add: sense_table_def)

text \<open>
  Claim C2 as stated fails at (0x02, 0x04, 0x02): the table of the specification gives
  "Needs INITIALIZE ELEMENT STATUS", the code returns the text without the "s".
\<close>

theorem sense_string_needs_counterexample:
  "spec_sense_table \<lparr>sense_key = 0x02, asc = 0x04, ascq = 0x02, valid = True\<rparr>
     = Some ''Needs INITIALIZE ELEMENT STATUS''
   \<and> scsi_sense_string (Some \<lparr>sense_key = 0x02, asc = 0x04, ascq = 0x02, valid = True\<rparr>)
     \<noteq> ''Needs INITIALIZE ELEMENT STATUS''"
  by (simp add: spec_sense_table_def sense_table_def scsi_sense_string_def)

text \<open>
  What \<^verbatim>\<open>parse_sense\<close> does with fixed-format sense (response code 0x70 or 0x71) of
  at least 8 and fewer than 13 bytes: the slot becomes valid with the new sense key, and
  its \<^verbatim>\<open>asc\<close> and \<^verbatim>\<open>ascq\<close> keep the values that were in the slot before the call.
  The function is static and \<^verbatim>\<open>scsi.c\<close> holds no call of it, so no command reaches it.
\<close>

lemma parse_sense_short_keeps_asc_ascq:
  assumes "8 \<le> length bytes" and "length bytes < 13"
    and "(bytes ! 0) AND 0x7F = 0x70 \<or> (bytes ! 0) AND 0x7F = 0x71"
  shows "valid (g_last_sense (parse_sense (Some bytes) g))
    \<and> sense_key (g_last_sense (parse_sense (Some bytes) g)) = (bytes ! 2) AND 0x0F
    \<and> asc (g_last_sense (parse_sense (Some bytes) g)) = asc (g_last_sense g)
    \<and> ascq (g_last_sense (parse_sense (Some bytes) g)) = ascq (g_last_sense g)"
  using assms by (auto simp: parse_sense_def Let_def)

lemma parse_sense_short_example:
  "g_last_sense (parse_sense (Some [0x70, 0, 0x02, 0, 0, 0, 0, 0x0A, 0, 0])
      \<lparr>g_last_sense = \<lparr>sense_key = 0x05, asc = 0x3B, ascq = 0x0E, valid = True\<rparr>\<rparr>)
   = \<lparr>sense_key = 0x02, asc = 0x3B, ascq = 0x0E, valid = True\<rparr>"
  by (simp add: parse_sense_def)

section \<open>Changer connection: properties\<close>

text \<open>
  Claim C1, as the code has it. The sense slot is the module-level
  \<^verbatim>\<open>g_last_sense\<close>, not a field of the connection, and \<^verbatim>\<open>scsi_get_last_sense\<close>
  takes no connection. When a command on a connected SCSITask connection fails and its
  sense is stored (the transport call failed with non-zero sense, or the task status is
  not GOOD), the call returns -1 and \<^verbatim>\<open>scsi_get_last_sense\<close> then returns that
  sense, marked valid, to whoever asks.
\<close>

theorem failing_cdb_sets_global_sense:
  assumes "connected c" and "backend c = BACKEND_SCSITASK" and "task_created reply"
    and "(\<not> kr_success reply \<and> (SENSE_KEY reply AND 0x0F \<noteq> 0 \<or> ADDITIONAL_SENSE_CODE reply \<noteq> 0
            \<or> ADDITIONAL_SENSE_CODE_QUALIFIER reply \<noteq> 0))
         \<or> (kr_success reply \<and> \<not> status_good reply)"
    and "changer_execute_cdb (Some c) cdb buffer direction timeout_ms reply g = (rc, buffer', g', ev)"
  shows "rc = -1
    \<and> scsi_get_last_sense g' =
        \<lparr>sense_key = SENSE_KEY reply AND 0x0F, asc = ADDITIONAL_SENSE_CODE reply,
         ascq = ADDITIONAL_SENSE_CODE_QUALIFIER reply, valid = True\<rparr>"
  using assms
  by (auto simp: changer_execute_cdb_def execute_cdb_scsitask_def scsi_set_sense_def
        scsi_get_last_sense_def Let_def split: if_splits)

theorem failing_cdb_sets_global_sense_witness:
  "changer_execute_cdb
     (Some \<lparr>backend = BACKEND_SCSITASK, service = 1, scsi_device = Some 1, has_exclusive = True,
            lun = None, login = None, connected = True\<rparr>)
     [0xA5, 0, 0, 0xE0, 0, 2, 1, 0, 0, 0, 0, 0] [] DIR_NONE 120000
     \<lparr>task_created = True, kr_success = True, status_good = False,
      SENSE_KEY = 0x05, ADDITIONAL_SENSE_CODE = 0x3B, ADDITIONAL_SENSE_CODE_QUALIFIER = 0x0E,
      orb_created = False, orb_submitted = False, status_notified = False, event_normal = False,
      data_in = []\<rparr>
     globals_init
   = (-1, [], \<lparr>g_last_sense = \<lparr>sense_key = 0x05, asc = 0x3B, ascq = 0x0E, valid = True\<rparr>\<rparr>,
      [ExecuteTaskSync [0xA5, 0, 0, 0xE0, 0, 2, 1, 0, 0, 0, 0, 0] 120000])"
proof -
  let ?c = "\<lparr>backend = BACKEND_SCSITASK, service = 1, scsi_device = Some 1, has_exclusive = True,
            lun = None, login = None, connected = True\<rparr>"
  let ?r = "\<lparr>task_created = True, kr_success = True, status_good = False,
      SENSE_KEY = 0x05, ADDITIONAL_SENSE_CODE = 0x3B, ADDITIONAL_SENSE_CODE_QUALIFIER = 0x0E,
      orb_created = False, orb_submitted = False, status_notified = False, event_normal = False,
      data_in = []\<rparr>"
  let ?cdb = "[0xA5, 0, 0, 0xE0, 0, 2, 1, 0, 0, 0, 0, 0] :: u8 list"
  obtain rc b g' ev where run:
    "changer_execute_cdb (Some ?c) ?cdb [] DIR_NONE 120000 ?r globals_init = (rc, b, g', ev)"
    by (metis prod_cases4)
  have "rc = -1 \<and> scsi_get_last_sense g' =
        \<lparr>sense_key = SENSE_KEY ?r AND 0x0F, asc = ADDITIONAL_SENSE_CODE ?r,
         ascq = ADDITIONAL_SENSE_CODE_QUALIFIER ?r, valid = True\<rparr>"
    by (rule failing_cdb_sets_global_sense [OF _ _ _ _ run]) simp_all
  with run show ?thesis
    by (simp add: changer_execute_cdb_def execute_cdb_scsitask_def scsi_set_sense_def
        globals_init_def DIR_NONE_def DIR_READ_def)
qed

text \<open>
  Claim C1 as stated fails: with two distinct connections, a failing MOVE MEDIUM on the
  first changes what \<^verbatim>\<open>scsi_get_last_sense\<close> returns, from the invalid initial
  slot to the valid sense 05/3B/0E; the second connection has no slot of its own to
  observe instead.
\<close>

theorem sense_slot_shared_counterexample:
  "\<lparr>backend = BACKEND_SCSITASK, service = 1, scsi_device = Some 1, has_exclusive = True,
     lun = None, login = None, connected = True\<rparr>
   \<noteq> \<lparr>backend = BACKEND_SBP2, service = 2, scsi_device = None, has_exclusive = False,
       lun = Some 2, login = Some 3, connected = True\<rparr>
   \<and> scsi_get_last_sense globals_init = \<lparr>sense_key = 0, asc = 0, ascq = 0, valid = False\<rparr>
   \<and> scsi_get_last_sense (fst (snd (snd (changer_execute_cdb
        (Some \<lparr>backend = BACKEND_SCSITASK, service = 1, scsi_device = Some 1, has_exclusive = True,
               lun = None, login = None, connected = True\<rparr>)
        [0xA5, 0, 0, 0xE0, 0, 2, 1, 0, 0, 0, 0, 0] [] DIR_NONE 120000
        \<lparr>task_created = True, kr_success = True, status_good = False,
         SENSE_KEY = 0x05, ADDITIONAL_SENSE_CODE = 0x3B, ADDITIONAL_SENSE_CODE_QUALIFIER = 0x0E,
         orb_created = False, orb_submitted = False, status_notified = False, event_normal = False,
         data_in = []\<rparr>
        globals_init))))
     = \<lparr>sense_key = 0x05, asc = 0x3B, ascq = 0x0E, valid = True\<rparr>"
  by (simp add: changer_execute_cdb_def execute_cdb_scsitask_def scsi_set_sense_def
        scsi_get_last_sense_def globals_init_def DIR_NONE_def DIR_READ_def)

text \<open>What \<^verbatim>\<open>changer_disconnect\<close> leaves behind, and that nothing is left to release.\<close>

lemma disconnect_scsitask_fields:
  "scsi_device (fst (disconnect_scsitask c)) = None"
  "backend (fst (disconnect_scsitask c)) = backend c"
  "service (fst (disconnect_scsitask c)) = service c"
  by (simp_all add: disconnect_scsitask_def split: option.splits)

lemma disconnect_sbp2_fields:
  "login (fst (disconnect_sbp2 c)) = None"
  "lun (fst (disconnect_sbp2 c)) = None"
  "backend (fst (disconnect_sbp2 c)) = backend c"
  "service (fst (disconnect_sbp2 c)) = service c"
  by (simp_all add: disconnect_sbp2_def split: option.splits)

lemma disconnect_scsitask_released:
  "scsi_device c = None \<Longrightarrow> disconnect_scsitask c = (c, [])"
  by (simp add: disconnect_scsitask_def)

lemma disconnect_sbp2_released:
  "login c = None \<Longrightarrow> lun c = None \<Longrightarrow> disconnect_sbp2 c = (c, [])"
  by (simp add: disconnect_sbp2_def)

lemma changer_disconnect_Some:
  "\<exists>c'. fst (changer_disconnect (Some c)) = Some c' \<and> \<not> connected c' \<and> service c' = 0
     \<and> backend c' = backend c
     \<and> (backend c = BACKEND_SCSITASK \<longrightarrow> scsi_device c' = None)
     \<and> (backend c = BACKEND_SBP2 \<longrightarrow> login c' = None \<and> lun c' = None)"
proof (cases "backend c")
  case BACKEND_NONE
  then show ?thesis by (simp add: changer_disconnect_def)
next
  case BACKEND_SCSITASK
  then show ?thesis
    by (cases "disconnect_scsitask c")
       (use disconnect_scsitask_fields [of c] in \<open>simp add: changer_disconnect_def\<close>)
next
  case BACKEND_SBP2
  then show ?thesis
    by (cases "disconnect_sbp2 c")
       (use disconnect_sbp2_fields [of c] in \<open>simp add: changer_disconnect_def\<close>)
qed

lemma changer_disconnect_released:
  assumes "\<not> connected c" and "service c = 0"
    and "backend c = BACKEND_SCSITASK \<longrightarrow> scsi_device c = None"
    and "backend c = BACKEND_SBP2 \<longrightarrow> login c = None \<and> lun c = None"
  shows "changer_disconnect (Some c) = (Some c, [])"
proof (cases "backend c")
  case BACKEND_NONE
  with assms show ?thesis by (simp add: changer_disconnect_def)
next
  case BACKEND_SCSITASK
  with assms show ?thesis
    by (simp add: changer_disconnect_def disconnect_scsitask_released)
next
  case BACKEND_SBP2
  with assms show ?thesis
    by (simp add: changer_disconnect_def disconnect_sbp2_released)
qed

text \<open>
  Claim C7. A second \<^verbatim>\<open>changer_disconnect\<close> on the connection a first one left
  makes no call (no resource is released again) and leaves the connection as it is; and
  \<^verbatim>\<open>changer_execute_cdb\<close> on that connection returns -1 without a call to either
  backend, leaving buffer and module state untouched.
\<close>

theorem disconnect_idempotent:
  "changer_disconnect (fst (changer_disconnect conn)) = (fst (changer_disconnect conn), [])
   \<and> changer_execute_cdb (fst (changer_disconnect conn)) cdb buffer direction timeout_ms reply g
       = (-1, buffer, g, [])"
proof (cases conn)
  case None
  then show ?thesis by (simp add: changer_disconnect_def changer_execute_cdb_def)
next
  case (Some c)
  from changer_disconnect_Some [of c] obtain c' where
    c': "fst (changer_disconnect (Some c)) = Some c'" "\<not> connected c'" "service c' = 0"
        "backend c' = backend c"
        "backend c = BACKEND_SCSITASK \<longrightarrow> scsi_device c' = None"
        "backend c = BACKEND_SBP2 \<longrightarrow> login c' = None \<and> lun c' = None"
    by blast
  then have "changer_disconnect (Some c') = (Some c', [])"
    by (intro changer_disconnect_released) simp_all
  moreover from c' have "changer_execute_cdb (Some c') cdb buffer direction timeout_ms reply g
       = (-1, buffer, g, [])"
    by (simp add: changer_execute_cdb_def)
  ultimately show ?thesis using Some c' by simp
qed

theorem disconnect_idempotent_witness:
  "changer_disconnect (Some sample_conn)
   = (Some \<lparr>backend = BACKEND_SCSITASK, service = 0, scsi_device = None, has_exclusive = True,
            lun = None, login = None, connected = False\<rparr>,
      [ReleaseExclusiveAccess 1, ReleaseSCSIDevice 1, IOObjectRelease 1])
   \<and> changer_disconnect
     (Some \<lparr>backend = BACKEND_SCSITASK, service = 0, scsi_device = None, has_exclusive = True,
            lun = None, login = None, connected = False\<rparr>)
   = (Some \<lparr>backend = BACKEND_SCSITASK, service = 0, scsi_device = None, has_exclusive = True,
            lun = None, login = None, connected = False\<rparr>, [])
   \<and> changer_execute_cdb
     (Some \<lparr>backend = BACKEND_SCSITASK, service = 0, scsi_device = None, has_exclusive = True,
            lun = None, login = None, connected = False\<rparr>)
     [0, 0, 0, 0, 0, 0] [] DIR_NONE 10000 (good_reply []) globals_init = (-1, [], globals_init, [])"
proof -
  have first: "changer_disconnect (Some sample_conn)
     = (Some \<lparr>backend = BACKEND_SCSITASK, service = 0, scsi_device = None, has_exclusive = True,
            lun = None, login = None, connected = False\<rparr>,
      [ReleaseExclusiveAccess 1, ReleaseSCSIDevice 1, IOObjectRelease 1])"
    by (simp add: changer_disconnect_def disconnect_scsitask_def)
  from disconnect_idempotent
         [of "Some sample_conn" "[0, 0, 0, 0, 0, 0]" "[]" DIR_NONE 10000 "good_reply []" globals_init]
       first
  show ?thesis by simp
qed

text \<open>
  On the path a failing command takes, the sense is stored by \<^verbatim>\<open>scsi_set_sense\<close>,
  which assigns all three fields: whatever the slot held, its \<^verbatim>\<open>asc\<close> and \<^verbatim>\<open>ascq\<close>
  are afterwards those of the sense structure. The SBP-2 backend stores no sense at all.
\<close>

lemma failing_cdb_overwrites_asc_ascq:
  assumes "connected c" and "backend c = BACKEND_SCSITASK" and "task_created reply"
    and "(\<not> kr_success reply \<and> (SENSE_KEY reply AND 0x0F \<noteq> 0 \<or> ADDITIONAL_SENSE_CODE reply \<noteq> 0
            \<or> ADDITIONAL_SENSE_CODE_QUALIFIER reply \<noteq> 0))
         \<or> (kr_success reply \<and> \<not> status_good reply)"
    and "changer_execute_cdb (Some c) cdb buffer direction timeout_ms reply g = (rc, buffer', g', ev)"
  shows "asc (g_last_sense g') = ADDITIONAL_SENSE_CODE reply"
    and "ascq (g_last_sense g') = ADDITIONAL_SENSE_CODE_QUALIFIER reply"
  using assms
  by (auto simp: changer_execute_cdb_def execute_cdb_scsitask_def scsi_set_sense_def Let_def
        split: if_splits)

lemma sbp2_stores_no_sense:
  assumes "backend c = BACKEND_SBP2"
    and "changer_execute_cdb (Some c) cdb buffer direction timeout_ms reply g = (rc, buffer', g', ev)"
  shows "g' = g"
  using assms
  by (auto simp: changer_execute_cdb_def execute_cdb_sbp2_def Let_def split: if_splits)

text \<open>
  Claim C10, as the code has it. When a command on a connected SCSITask connection
  fails with fixed-format sense (response code 0x70 or 0x71) of at least 8 and fewer
  than 13 bytes, and the sense is stored (the task status is not GOOD, or the transport
  call failed and the sense key is not zero), the call returns -1 and the slot becomes
  valid with the new sense key and with \<^verbatim>\<open>asc\<close> and \<^verbatim>\<open>ascq\<close> zero, the values of
  the zeroed sense structure; nothing of what the slot held before remains.
\<close>

theorem failing_cdb_short_sense_resets_asc_ascq:
  assumes "connected c" and "backend c = BACKEND_SCSITASK" and "task_created reply"
    and "8 \<le> length bytes" and "length bytes < 13"
    and "(bytes ! 0) AND 0x7F = 0x70 \<or> (bytes ! 0) AND 0x7F = 0x71"
    and "(kr_success reply \<and> \<not> status_good reply)
         \<or> (\<not> kr_success reply \<and> (bytes ! 2) AND 0x0F \<noteq> 0)"
    and "changer_execute_cdb (Some c) cdb buffer direction timeout_ms (auto_sense bytes reply) g
           = (rc, buffer', g', ev)"
  shows "rc = -1
    \<and> scsi_get_last_sense g' = \<lparr>sense_key = (bytes ! 2) AND 0x0F, asc = 0, ascq = 0, valid = True\<rparr>"
  using assms
  by (auto simp: changer_execute_cdb_def execute_cdb_scsitask_def scsi_set_sense_def
        scsi_get_last_sense_def auto_sense_def Let_def split: if_splits)

text \<open>
  A TEST UNIT READY that ends with CHECK CONDITION and ten bytes of sense with key 02,
  while the slot holds 05/3B/0E from an earlier failure: the slot becomes 02/00/00.
\<close>

theorem failing_cdb_short_sense_resets_asc_ascq_witness:
  "changer_execute_cdb (Some sample_conn) [0, 0, 0, 0, 0, 0] [] DIR_NONE 10000
     (auto_sense [0x70, 0, 0x02, 0, 0, 0, 0, 0x0A, 0, 0] ((good_reply [])\<lparr>status_good := False\<rparr>))
     \<lparr>g_last_sense = \<lparr>sense_key = 0x05, asc = 0x3B, ascq = 0x0E, valid = True\<rparr>\<rparr>
   = (-1, [], \<lparr>g_last_sense = \<lparr>sense_key = 0x02, asc = 0, ascq = 0, valid = True\<rparr>\<rparr>,
      [ExecuteTaskSync [0, 0, 0, 0, 0, 0] 10000])"
proof -
  let ?bytes = "[0x70, 0, 0x02, 0, 0, 0, 0, 0x0A, 0, 0] :: u8 list"
  let ?reply = "(good_reply [])\<lparr>status_good := False\<rparr>"
  let ?g = "\<lparr>g_last_sense = \<lparr>sense_key = 0x05, asc = 0x3B, ascq = 0x0E, valid = True\<rparr>\<rparr>"
  obtain rc b g' ev where run:
    "changer_execute_cdb (Some sample_conn) [0, 0, 0, 0, 0, 0] [] DIR_NONE 10000
       (auto_sense ?bytes ?reply) ?g = (rc, b, g', ev)"
    by (metis prod_cases4)
  have "rc = -1 \<and> scsi_get_last_sense g' =
      \<lparr>sense_key = (?bytes ! 2) AND 0x0F, asc = 0, ascq = 0, valid = True\<rparr>"
    by (rule failing_cdb_short_sense_resets_asc_ascq [OF _ _ _ _ _ _ _ run]) simp_all
  with run show ?thesis
    by (simp add: changer_execute_cdb_def execute_cdb_scsitask_def scsi_set_sense_def
          auto_sense_def DIR_NONE_def DIR_READ_def)
qed

text \<open>
  Claim C10 as stated fails: after that command the slot does not keep the 3B/0E the
  earlier failure left. The sense structure of the reply holds 02/00/00, which is what ten
  bytes of sense leave in it, and the slot holds the same afterwards.
\<close>

theorem failing_cdb_short_sense_counterexample:
  "auto_sense [0x70, 0, 0x02, 0, 0, 0, 0, 0x0A, 0, 0] ((good_reply [])\<lparr>status_good := False\<rparr>)
     = \<lparr>task_created = True, kr_success = True, status_good = False,
        SENSE_KEY = 0x02, ADDITIONAL_SENSE_CODE = 0, ADDITIONAL_SENSE_CODE_QUALIFIER = 0,
        orb_created = False, orb_submitted = False, status_notified = False, event_normal = False,
        data_in = []\<rparr>
   \<and> changer_execute_cdb (Some sample_conn) [0, 0, 0, 0, 0, 0] [] DIR_NONE 10000
       \<lparr>task_created = True, kr_success = True, status_good = False,
        SENSE_KEY = 0x02, ADDITIONAL_SENSE_CODE = 0, ADDITIONAL_SENSE_CODE_QUALIFIER = 0,
        orb_created = False, orb_submitted = False, status_notified = False, event_normal = False,
        data_in = []\<rparr>
       \<lparr>g_last_sense = \<lparr>sense_key = 0x05, asc = 0x3B, ascq = 0x0E, valid = True\<rparr>\<rparr>
     = (-1, [], \<lparr>g_last_sense = \<lparr>sense_key = 0x02, asc = 0, ascq = 0, valid = True\<rparr>\<rparr>,
        [ExecuteTaskSync [0, 0, 0, 0, 0, 0] 10000])"
  by (simp add: auto_sense_def changer_execute_cdb_def execute_cdb_scsitask_def scsi_set_sense_def
        DIR_NONE_def DIR_READ_def)

section \<open>MODE SENSE: properties\<close>

text \<open>The slot loop writes \<open>first_storage + i\<close> at every index and keeps the length.\<close>

lemma length_fill_slots: "length (fill_slots first n i sl) = length sl"
proof (induction first n i sl rule: fill_slots.induct)
  case (1 first n i sl)
  then show ?case by (subst fill_slots.simps) simp
qed

lemma unat_succ_below: "(i::u16) < n \<Longrightarrow> unat (i + 1) = Suc (unat i)"
proof -
  assume "i < n"
  then have "unat i < unat n" by (simp add: word_less_nat_alt)
  moreover have "unat n < 2 ^ 16"
    using unsigned_less [of n, where 'a = nat] by simp
  ultimately have "unat i + 1 < 2 ^ 16" by linarith
  then show ?thesis by (simp add: unat_word_ariths)
qed

lemma nth_fill_slots:
  "j < length sl \<Longrightarrow> length sl = unat n \<Longrightarrow>
   fill_slots first n i sl ! j = (if unat i \<le> j then first + word_of_nat j else sl ! j)"
proof (induction first n i sl rule: fill_slots.induct)
  case (1 first n i sl)
  show ?case
  proof (cases "i < n")
    case True
    note suc = unat_succ_below [OF True]
    have step: "fill_slots first n i sl = fill_slots first n (i + 1) (sl[unat i := first + i])"
      using True by (subst fill_slots.simps) simp
    have ih: "fill_slots first n (i + 1) (sl[unat i := first + i]) ! j =
        (if unat (i + 1) \<le> j then first + word_of_nat j else (sl[unat i := first + i]) ! j)"
      using "1.IH" [OF True] "1.prems" by simp
    show ?thesis
    proof (cases "unat i = j")
      case True
      then have "word_of_nat j = i" by auto
      with True ih suc "1.prems" step show ?thesis by simp
    next
      case False
      with ih suc step show ?thesis by auto
    qed
  next
    case False
    then have "unat n \<le> unat i" by (simp add: word_less_nat_alt)
    with False "1.prems" show ?thesis by (subst fill_slots.simps) simp
  qed
qed

text \<open>A command that returns 0 for a read left the transferred bytes in the buffer.\<close>

lemma nth_transfer_in:
  "i < length buffer \<Longrightarrow>
   transfer_in received buffer ! i = (if i < length received then received ! i else buffer ! i)"
  by (auto simp: transfer_in_def nth_append)

lemma length_transfer_in: "length (transfer_in received buffer) = length buffer"
  by (simp add: transfer_in_def)

lemma execute_cdb_read_buffer:
  assumes "changer_execute_cdb conn cdb buffer DIR_READ timeout_ms reply g = (0, buf, g', ev)"
  shows "buf = transfer_in (data_in reply) buffer"
proof (cases conn)
  case None
  with assms show ?thesis by (simp add: changer_execute_cdb_def)
next
  case (Some c)
  show ?thesis
  proof (cases "buffer = []")
    case True
    with assms Some show ?thesis
      by (auto simp: changer_execute_cdb_def execute_cdb_scsitask_def execute_cdb_sbp2_def
            transfer_in_def Let_def split: if_splits)
  next
    case False
    with assms Some show ?thesis
      by (auto simp: changer_execute_cdb_def execute_cdb_scsitask_def execute_cdb_sbp2_def
            Let_def split: if_splits)
  qed
qed

lemma mode_sense_parse_slots:
  assumes "mode_sense_parse buf m calloc_ok = (0, m')"
  shows "(0 < reported_num_storage buf \<longrightarrow>
            slot_count m' = unat (reported_num_storage buf)
            \<and> slots m' = Some (fill_slots (reported_first_storage buf) (reported_num_storage buf) 0
                               (replicate (unat (reported_num_storage buf)) 0)))
       \<and> (reported_num_storage buf = 0 \<longrightarrow> slots m' = slots m \<and> slot_count m' = slot_count m)"
  using assms
  by (auto simp: mode_sense_parse_def Let_def word_greater_zero_iff split: if_splits)

text \<open>
  Claim C5, as the code has it. When \<^verbatim>\<open>scsi_mode_sense_element\<close> returns 0, with
  \<open>first_storage\<close> and \<open>num_storage\<close> the values the response reports: if
  \<open>num_storage > 0\<close>, the map has \<open>slot_count = num_storage\<close> and an array of that
  many slots with \<open>slots[i] = first_storage + i\<close> and \<open>slots[i] - slots[0] = i\<close> in
  16-bit arithmetic, for every \<open>i < slot_count\<close>; if \<open>num_storage = 0\<close>, the slot
  array and the slot count of the map are the ones the caller passed in.
\<close>

theorem mode_sense_slots:
  assumes "scsi_mode_sense_element conn (Some m) dev calloc_ok g = (0, r, g', ev)"
    and "first_storage = reported_first_storage (mode_sense_buf conn dev g)"
    and "num_storage = reported_num_storage (mode_sense_buf conn dev g)"
  shows "\<exists>m'. r = Some m'
      \<and> (0 < num_storage \<longrightarrow>
            slot_count m' = unat num_storage
            \<and> (\<exists>sl. slots m' = Some sl \<and> length sl = unat num_storage
                 \<and> (\<forall>i < unat num_storage.
                       sl ! i = first_storage + word_of_nat i \<and> sl ! i - sl ! 0 = word_of_nat i)))
      \<and> (num_storage = 0 \<longrightarrow> slots m' = slots m \<and> slot_count m' = slot_count m)"
proof -
  from assms(1) obtain c where conn: "conn = Some c"
    by (cases conn) (simp_all add: scsi_mode_sense_element_def)
  obtain k g1 ev1 where tur: "tur_loop conn dev 0 g [] = (k, g1, ev1)"
    by (metis prod_cases3)
  obtain rc buf g2 ev2 where ex:
    "changer_execute_cdb conn mode_sense_cdb (replicate 256 0) DIR_READ 10000 (dev k) g1
       = (rc, buf, g2, ev2)"
    by (metis prod_cases4)
  obtain rc' m' where parse: "mode_sense_parse buf m calloc_ok = (rc', m')"
    by (metis prod.exhaust)
  from assms(1) conn tur ex parse have rc: "rc = 0" and rc': "rc' = 0" and r: "r = Some m'"
    by (auto simp: scsi_mode_sense_element_def Let_def split: if_splits)
  from ex rc have "buf = transfer_in (data_in (dev k)) (replicate 256 0)"
    by (simp add: execute_cdb_read_buffer)
  with tur have buf: "buf = mode_sense_buf conn dev g"
    by (simp add: mode_sense_buf_def)
  from parse rc' have p: "mode_sense_parse buf m calloc_ok = (0, m')"
    by simp
  note facts = mode_sense_parse_slots [OF p, unfolded buf, folded assms(2,3)]
  let ?sl = "fill_slots first_storage num_storage 0 (replicate (unat num_storage) 0)"
  have len: "length ?sl = unat num_storage"
    by (simp add: length_fill_slots)
  have nth: "?sl ! i = first_storage + word_of_nat i" if "i < unat num_storage" for i
    using that by (simp add: nth_fill_slots)
  have diff: "?sl ! i - ?sl ! 0 = word_of_nat i" if "i < unat num_storage" for i
  proof -
    from that have "0 < unat num_storage" by simp
    then have "?sl ! 0 = first_storage + word_of_nat 0" by (rule nth)
    with nth [OF that] show ?thesis by simp
  qed
  from facts len nth diff r show ?thesis by auto
qed

lemmas mode_sense_eval =
  scsi_mode_sense_element_def tur_loop.simps scsi_test_unit_ready_def changer_execute_cdb_def
  execute_cdb_scsitask_def DIR_NONE_def DIR_READ_def mode_sense_parse_def mode_page_offset_def
  reported_first_storage_def reported_num_storage_def be16_def nth_transfer_in
  fill_slots.simps globals_init_def mode_sense_cdb_def mode_sense_buf_def

text \<open>Scenario S1 of the specification: five slots from address 0.\<close>

theorem mode_sense_slots_witness:
  "scsi_mode_sense_element (Some sample_conn)
     (Some \<lparr>transport = 0, slots = None, slot_count = 0, drive = 0, ie = 0, has_ie = False\<rparr>)
     (\<lambda>k. good_reply s1_response) True globals_init
   = (0, Some \<lparr>transport = 0x00E0, slots = Some [0, 1, 2, 3, 4], slot_count = 5, drive = 0x0100,
                ie = 0, has_ie = False\<rparr>,
      globals_init,
      [ExecuteTaskSync [0, 0, 0, 0, 0, 0] 10000, ExecuteTaskSync mode_sense_cdb 10000])
   \<and> reported_first_storage (mode_sense_buf (Some sample_conn) (\<lambda>k. good_reply s1_response) globals_init) = 0
   \<and> reported_num_storage (mode_sense_buf (Some sample_conn) (\<lambda>k. good_reply s1_response) globals_init) = 5"
proof -
  have run: "scsi_mode_sense_element (Some sample_conn)
     (Some \<lparr>transport = 0, slots = None, slot_count = 0, drive = 0, ie = 0, has_ie = False\<rparr>)
     (\<lambda>k. good_reply s1_response) True globals_init
   = (0, Some \<lparr>transport = 0x00E0, slots = Some [0, 1, 2, 3, 4], slot_count = 5, drive = 0x0100,
                ie = 0, has_ie = False\<rparr>,
      globals_init,
      [ExecuteTaskSync [0, 0, 0, 0, 0, 0] 10000, ExecuteTaskSync mode_sense_cdb 10000])"
    by (simp add: mode_sense_eval) (simp add: eval_nat_numeral)
  have rep: "reported_first_storage (mode_sense_buf (Some sample_conn) (\<lambda>k. good_reply s1_response) globals_init) = 0"
    "reported_num_storage (mode_sense_buf (Some sample_conn) (\<lambda>k. good_reply s1_response) globals_init) = 5"
    by (simp_all add: mode_sense_eval)
  from mode_sense_slots [OF run refl refl] run rep show ?thesis by simp
qed

text \<open>
  Claim C5 as stated fails on a response that reports no storage element when the
  caller's map is not zeroed: the function returns 0 and the map still has the three
  slots it came with, so \<open>slot_count = 3\<close> while \<open>num_storage = 0\<close>.
\<close>

theorem mode_sense_stale_map_counterexample:
  "scsi_mode_sense_element (Some sample_conn)
     (Some \<lparr>transport = 0, slots = Some [0x10, 0x11, 0x12], slot_count = 3, drive = 0, ie = 0,
            has_ie = False\<rparr>)
     (\<lambda>k. good_reply no_storage_response) True globals_init
   = (0, Some \<lparr>transport = 0x00E0, slots = Some [0x10, 0x11, 0x12], slot_count = 3, drive = 0x0100,
                ie = 0, has_ie = False\<rparr>,
      globals_init,
      [ExecuteTaskSync [0, 0, 0, 0, 0, 0] 10000, ExecuteTaskSync mode_sense_cdb 10000])
   \<and> reported_num_storage
        (mode_sense_buf (Some sample_conn) (\<lambda>k. good_reply no_storage_response) globals_init) = 0"
  by (simp add: mode_sense_eval)

section \<open>READ ELEMENT STATUS: properties\<close>

text \<open>
  Both loops only ever advance the index, never past \<^verbatim>\<open>max_statuses\<close>, keep the
  length of the array, and leave the entries from the final index on as they were.
\<close>

lemma store_status_frame:
  "length (store_status buf offset desc_len statuses status_idx) = length statuses"
  "j \<noteq> status_idx \<Longrightarrow> store_status buf offset desc_len statuses status_idx ! j = statuses ! j"
  by (simp_all add: store_status_def Let_def)

lemma descriptor_step_frame:
  assumes "descriptor_step buf ty desc_len (offset, statuses, status_idx) = (offset', statuses', status_idx')"
  shows "offset' = offset + desc_len"
    and "status_idx \<le> status_idx'" and "status_idx' \<le> Suc status_idx"
    and "length statuses' = length statuses"
    and "status_idx' \<le> j \<Longrightarrow> statuses' ! j = statuses ! j"
  using assms by (auto simp: descriptor_step_def store_status_frame split: if_splits)

lemma parse_descriptors_frame:
  "snd (snd st) \<le> max_statuses \<Longrightarrow>
   parse_descriptors buf ty desc_len page_end max_statuses st = (offset', statuses', status_idx') \<Longrightarrow>
   snd (snd st) \<le> status_idx' \<and> status_idx' \<le> max_statuses
   \<and> length statuses' = length (fst (snd st))
   \<and> (\<forall>j\<ge>status_idx'. statuses' ! j = fst (snd st) ! j)"
proof (induction buf ty desc_len page_end max_statuses st rule: parse_descriptors.induct)
  case (1 buf ty desc_len page_end max_statuses offset statuses status_idx)
  show ?case
  proof (cases "offset + desc_len \<le> page_end \<and> status_idx < max_statuses \<and> \<not> desc_len < 2")
    case False
    with "1.prems" show ?thesis
      by (auto simp: parse_descriptors.simps split: if_splits)
  next
    case True
    obtain o1 s1 i1 where step:
      "descriptor_step buf ty desc_len (offset, statuses, status_idx) = (o1, s1, i1)"
      by (metis prod_cases3)
    note fr = descriptor_step_frame [OF step]
    from True fr have le: "snd (snd (o1, s1, i1)) \<le> max_statuses" by simp
    from True step "1.prems"(2)
    have run: "parse_descriptors buf ty desc_len page_end max_statuses (o1, s1, i1)
        = (offset', statuses', status_idx')"
      by (simp add: parse_descriptors.simps [of _ _ _ _ _ offset])
    from True have c1: "offset + desc_len \<le> page_end \<and> status_idx < max_statuses"
      and c2: "\<not> desc_len < 2" by simp_all
    from "1.IH" [OF c1 c2, unfolded step, OF le run]
    have ih: "i1 \<le> status_idx'" "status_idx' \<le> max_statuses" "length statuses' = length s1"
      "\<forall>j\<ge>status_idx'. statuses' ! j = s1 ! j" by simp_all
    with fr show ?thesis by auto
  qed
qed

lemma parse_pages_frame:
  "snd (snd st) \<le> max_statuses \<Longrightarrow>
   parse_pages buf r_end max_statuses st = (statuses', status_idx') \<Longrightarrow>
   snd (snd st) \<le> status_idx' \<and> status_idx' \<le> max_statuses
   \<and> length statuses' = length (fst (snd st))
   \<and> (\<forall>j\<ge>status_idx'. statuses' ! j = fst (snd st) ! j)"
proof (induction buf r_end max_statuses st rule: parse_pages.induct)
  case (1 buf r_end max_statuses offset statuses status_idx)
  let ?ty = "(buf ! offset) AND 0x0F"
  let ?dl = "unat (be16 buf (offset + 2))"
  let ?pb = "unat (be24 buf (offset + 5))"
  let ?pe = "if r_end < offset + 8 + ?pb then r_end else offset + 8 + ?pb"
  show ?case
  proof (cases "offset + 8 \<le> r_end \<and> status_idx < max_statuses \<and> \<not> (?dl = 0 \<or> ?pb = 0)")
    case False
    with "1.prems" show ?thesis
      by (auto simp: parse_pages.simps Let_def split: if_splits)
  next
    case True
    let ?inner = "parse_descriptors buf ?ty ?dl ?pe max_statuses (offset + 8, statuses, status_idx)"
    let ?st' = "if fst ?inner < ?pe then (?pe, snd ?inner) else ?inner"
    obtain o1 s1 i1 where inner: "?inner = (o1, s1, i1)"
      by (metis prod_cases3)
    from parse_descriptors_frame [OF _ inner] "1.prems"(1)
    have fr: "status_idx \<le> i1" "i1 \<le> max_statuses" "length s1 = length statuses"
      "\<forall>j\<ge>i1. s1 ! j = statuses ! j" by simp_all
    have snd_st': "snd ?st' = (s1, i1)" using inner by simp
    have "parse_pages buf r_end max_statuses (offset, statuses, status_idx)
        = parse_pages buf r_end max_statuses ?st'"
      using True by (subst parse_pages.simps) (simp add: Let_def)
    with "1.prems"(2)
    have run: "parse_pages buf r_end max_statuses ?st' = (statuses', status_idx')"
      by simp
    from True have c1: "offset + 8 \<le> r_end \<and> status_idx < max_statuses"
      and c2: "\<not> (?dl = 0 \<or> ?pb = 0)" by simp_all
    have le: "snd (snd ?st') \<le> max_statuses" using fr snd_st' by simp
    have "snd (snd ?st') \<le> status_idx' \<and> status_idx' \<le> max_statuses
       \<and> length statuses' = length (fst (snd ?st'))
       \<and> (\<forall>j\<ge>status_idx'. statuses' ! j = fst (snd ?st') ! j)"
      by (rule "1.IH" [OF c1 refl refl refl refl c2 refl refl refl le run])
    then have "i1 \<le> status_idx' \<and> status_idx' \<le> max_statuses
       \<and> length statuses' = length s1 \<and> (\<forall>j\<ge>status_idx'. statuses' ! j = s1 ! j)"
      unfolding snd_st' by simp
    with fr show ?thesis by auto
  qed
qed

text \<open>
  The descriptor loop never moves the offset past the end of its page, so the offsets of
  the walk stay at or below \<^verbatim>\<open>end\<close>, hence below \<open>2\<^sup>1\<^sup>6\<close>.
\<close>

lemma parse_descriptors_offset_bound:
  "fst st \<le> page_end \<Longrightarrow>
   fst (parse_descriptors buf ty desc_len page_end max_statuses st) \<le> page_end"
proof (induction buf ty desc_len page_end max_statuses st rule: parse_descriptors.induct)
  case (1 buf ty desc_len page_end max_statuses offset statuses status_idx)
  show ?case
  proof (cases "offset + desc_len \<le> page_end \<and> status_idx < max_statuses \<and> \<not> desc_len < 2")
    case False
    with "1.prems" show ?thesis
      by (auto simp: parse_descriptors.simps)
  next
    case True
    then have c1: "offset + desc_len \<le> page_end \<and> status_idx < max_statuses"
      and c2: "\<not> desc_len < 2" by simp_all
    have "fst (descriptor_step buf ty desc_len (offset, statuses, status_idx)) \<le> page_end"
      using True by (simp add: descriptor_step_def)
    from "1.IH" [OF c1 c2 this] True show ?thesis
      by (subst parse_descriptors.simps) simp
  qed
qed

text \<open>
  Claim C3, as the code has it. Whatever the response, the capacity and the element
  count of the header: the value \<^verbatim>\<open>scsi_read_element_status\<close> returns is at most
  \<^verbatim>\<open>max_statuses\<close>, the array keeps its length, and the entries from that index on
  are untouched, so at most \<^verbatim>\<open>max_statuses\<close> entries are populated. The element
  count of the header does not bound the walk.
\<close>

theorem read_element_status_count_bounded:
  assumes "scsi_read_element_status conn element_type start count statuses max_statuses reply
             calloc_ok g = (rc, statuses', g', ev)"
  shows "rc \<le> int max_statuses
    \<and> (case statuses of
          None \<Rightarrow> statuses' = None
        | Some sts \<Rightarrow>
            (\<exists>sts'. statuses' = Some sts' \<and> length sts' = length sts
               \<and> (\<forall>j\<ge>nat rc. sts' ! j = sts ! j)))"
proof (cases "\<exists>c sts buf g1 r_end.
    conn = Some c \<and> statuses = Some sts
    \<and> (rc, statuses') = (\<lambda>(sts', status_idx). (int status_idx, Some sts'))
                          (parse_pages buf r_end max_statuses (8, sts, 0))")
  case True
  then obtain sts buf r_end where
    st: "statuses = Some sts" and
    eq: "(rc, statuses') = (\<lambda>(sts', status_idx). (int status_idx, Some sts'))
                            (parse_pages buf r_end max_statuses (8, sts, 0))"
    by blast
  obtain sts' status_idx where
    run: "parse_pages buf r_end max_statuses (8, sts, 0) = (sts', status_idx)"
    by (metis prod.exhaust)
  with eq have res: "rc = int status_idx" "statuses' = Some sts'"
    by simp_all
  from parse_pages_frame [OF _ run]
  have "status_idx \<le> max_statuses" "length sts' = length sts" "\<forall>j\<ge>status_idx. sts' ! j = sts ! j"
    by simp_all
  with st res show ?thesis by simp
next
  case False
  with assms have "rc \<le> 0 \<and> statuses' = statuses"
    by (auto simp: scsi_read_element_status_def changer_execute_cdb_def execute_cdb_scsitask_def
          execute_cdb_sbp2_def Let_def
          split: option.splits if_splits prod.splits)
  then show ?thesis by (auto split: option.splits)
qed

lemmas res_eval =
  scsi_read_element_status_def res_alloc_def changer_execute_cdb_def execute_cdb_scsitask_def
  DIR_READ_def be16_def be24_def nth_transfer_in parse_pages.simps parse_descriptors.simps
  descriptor_step_def all_zero_def store_status_def ELEM_STORAGE_def globals_init_def
  res_num_elem_def upt_rec

text \<open>Scenario S6: two descriptors, two entries, the third entry of the array untouched.\<close>

theorem read_element_status_count_bounded_witness:
  "scsi_read_element_status (Some sample_conn) ELEM_STORAGE 0x10 2
      (Some [empty_status, empty_status, empty_status]) 3
      (good_reply (s6_response 2)) True globals_init
   = (2, Some [\<lparr>address = 0x10, full = True, except = False, source = 0, source_valid = False\<rparr>,
               \<lparr>address = 0x11, full = False, except = False, source = 0, source_valid = False\<rparr>,
               empty_status],
      globals_init, [ExecuteTaskSync (res_cdb 2 0x10 2 4096) 30000])"
proof -
  have run: "scsi_read_element_status (Some sample_conn) ELEM_STORAGE 0x10 2
      (Some [empty_status, empty_status, empty_status]) 3
      (good_reply (s6_response 2)) True globals_init
   = (2, Some [\<lparr>address = 0x10, full = True, except = False, source = 0, source_valid = False\<rparr>,
               \<lparr>address = 0x11, full = False, except = False, source = 0, source_valid = False\<rparr>,
               empty_status],
      globals_init, [ExecuteTaskSync (res_cdb 2 0x10 2 4096) 30000])"
    by (simp add: res_eval)
  from read_element_status_count_bounded [OF run] run show ?thesis
    by simp
qed

text \<open>
  Claim C3 as stated fails on the element count: the same answer with a header that
  reports one element still populates two entries.
\<close>

theorem read_element_status_exceeds_num_elem_counterexample:
  "scsi_read_element_status (Some sample_conn) ELEM_STORAGE 0x10 2
      (Some [empty_status, empty_status, empty_status]) 3
      (good_reply (s6_response 1)) True globals_init
   = (2, Some [\<lparr>address = 0x10, full = True, except = False, source = 0, source_valid = False\<rparr>,
               \<lparr>address = 0x11, full = False, except = False, source = 0, source_valid = False\<rparr>,
               empty_status],
      globals_init, [ExecuteTaskSync (res_cdb 2 0x10 2 4096) 30000])
   \<and> res_num_elem 2 (good_reply (s6_response 1)) = 1"
  by (simp add: res_eval)

text \<open>
  Claim C9. With a NULL output array and a command that succeeds,
  \<^verbatim>\<open>scsi_read_element_status\<close> returns 0 and parses nothing, whatever the response
  reports.
\<close>

theorem read_element_status_null_statuses:
  assumes "changer_execute_cdb (Some c) (res_cdb element_type start count (res_alloc count))
             (replicate (res_alloc count) 0) DIR_READ 30000 reply g = (0, buf, g1, ev)"
  shows "scsi_read_element_status (Some c) element_type start count None max_statuses reply True g
           = (0, None, g1, ev)"
  using assms by (simp add: scsi_read_element_status_def Let_def)

text \<open>The answer of scenario S6 reports two elements; with a NULL array the result is 0.\<close>

theorem read_element_status_null_statuses_witness:
  "scsi_read_element_status (Some sample_conn) ELEM_STORAGE 0x10 2 None 3
      (good_reply (s6_response 2)) True globals_init
   = (0, None, globals_init, [ExecuteTaskSync (res_cdb ELEM_STORAGE 0x10 2 4096) 30000])
   \<and> res_num_elem 2 (good_reply (s6_response 2)) = 2"
proof -
  have ex: "changer_execute_cdb (Some sample_conn) (res_cdb ELEM_STORAGE 0x10 2 (res_alloc 2))
      (replicate (res_alloc 2) 0) DIR_READ 30000 (good_reply (s6_response 2)) globals_init
    = (0, transfer_in (s6_response 2) (replicate (res_alloc 2) 0), globals_init,
       [ExecuteTaskSync (res_cdb ELEM_STORAGE 0x10 2 4096) 30000])"
    by (simp add: changer_execute_cdb_def execute_cdb_scsitask_def DIR_READ_def res_alloc_def)
  have "res_num_elem 2 (good_reply (s6_response 2)) = 2"
    by (simp add: res_eval)
  with read_element_status_null_statuses [OF ex, of 3] show ?thesis
    by simp
qed





section \<open>Optical-media locator: properties\<close>

text \<open>
  The locator of CChangerLib never queries the Blu-ray class, and its result does not
  depend on what the registry holds for it. The locator of Discbot/Bridging tries DVD,
  CD and Blu-ray in this order, stops at the first class that gives a name, and returns
  NULL exactly when none of the three does.
\<close>

lemma cchangerlib_locator_ignores_blu_ray:
  "mount_find_dvd_bsd_name (reg(kIOBDMediaClass := x)) = mount_find_dvd_bsd_name reg"
  "kIOBDMediaClass \<notin> set (snd (mount_find_dvd_bsd_name reg))"
  by (simp_all add: mount_find_dvd_bsd_name_def Let_def split: option.splits prod.splits)

lemma bridging_locator_order:
  "fst (bridging_mount_find_dvd_bsd_name reg) =
     (case bridging_try_class reg kIODVDMediaClass of
        Some n \<Rightarrow> Some n
      | None \<Rightarrow> (case bridging_try_class reg kIOCDMediaClass of
                   Some n \<Rightarrow> Some n
                 | None \<Rightarrow> bridging_try_class reg kIOBDMediaClass))"
  "fst (bridging_mount_find_dvd_bsd_name reg) = None \<longleftrightarrow>
     bridging_try_class reg kIODVDMediaClass = None
     \<and> bridging_try_class reg kIOCDMediaClass = None
     \<and> bridging_try_class reg kIOBDMediaClass = None"
  "snd (bridging_mount_find_dvd_bsd_name reg) =
     take (length (snd (bridging_mount_find_dvd_bsd_name reg)))
       [kIODVDMediaClass, kIOCDMediaClass, kIOBDMediaClass]"
  by (simp_all add: bridging_mount_find_dvd_bsd_name_def split: option.splits)

text \<open>
  Claim C4 at a registry whose only optical medium is a Blu-ray disc "disk3": the
  locator of CChangerLib/mount.c queries the DVD and the CD class and returns NULL; the
  locator of Discbot/Bridging/mount.c goes on to the Blu-ray class and returns "disk3",
  as the claim says.
\<close>

theorem locator_blu_ray_only:
  "mount_find_dvd_bsd_name blu_ray_only = (None, [kIODVDMediaClass, kIOCDMediaClass])
   \<and> bridging_mount_find_dvd_bsd_name blu_ray_only
       = (Some ''disk3'', [kIODVDMediaClass, kIOCDMediaClass, kIOBDMediaClass])"
  by (simp add: mount_find_dvd_bsd_name_def bridging_mount_find_dvd_bsd_name_def
        bridging_try_class_def first_service_def get_cstring_def)

section \<open>Eject: properties\<close>

text \<open>
  Claim C8. For every disk-arbitration service and every device name, both versions of
  \<^verbatim>\<open>mount_eject_disc\<close> make the same requests and return the same value with
  \<^verbatim>\<open>force\<close> true and with \<^verbatim>\<open>force\<close> false, and every eject they request carries
  \<^verbatim>\<open>kDADiskEjectOptionDefault\<close>.
\<close>

theorem eject_ignores_force:
  "mount_eject_disc sys bsd_name True = mount_eject_disc sys bsd_name False
   \<and> bridging_mount_eject_disc sys name True = bridging_mount_eject_disc sys name False
   \<and> list_all (\<lambda>r. case r of DADiskEject n options \<Rightarrow> options = kDADiskEjectOptionDefault)
        (snd (mount_eject_disc sys bsd_name force))
   \<and> list_all (\<lambda>r. case r of DADiskEject n options \<Rightarrow> options = kDADiskEjectOptionDefault)
        (snd (bridging_mount_eject_disc sys name force))"
  by (simp add: mount_eject_disc_def bridging_mount_eject_disc_def Let_def
        split: option.splits da_completion.splits)

text \<open>
  Where a default eject is refused and a forced one would succeed, both versions return
  the refusal with \<^verbatim>\<open>force\<close> true as with \<^verbatim>\<open>force\<close> false.
\<close>

theorem eject_ignores_force_witness:
  "mount_eject_disc eject_needs_force (Some ''/dev/disk3'') True
     = (- 119930878, [DADiskEject ''disk3'' kDADiskEjectOptionDefault])
   \<and> mount_eject_disc eject_needs_force (Some ''/dev/disk3'') False
     = (- 119930878, [DADiskEject ''disk3'' kDADiskEjectOptionDefault])
   \<and> bridging_mount_eject_disc eject_needs_force ''disk3'' True
     = (- 119930878, [DADiskEject ''/dev/disk3'' kDADiskEjectOptionDefault])
   \<and> bridging_mount_eject_disc eject_needs_force ''disk3'' False
     = (- 119930878, [DADiskEject ''/dev/disk3'' kDADiskEjectOptionDefault])"
proof -
  have a: "mount_eject_disc eject_needs_force (Some ''/dev/disk3'') False
     = (- 119930878, [DADiskEject ''disk3'' kDADiskEjectOptionDefault])"
    by (simp add: mount_eject_disc_def strip_dev_def)
  have b: "bridging_mount_eject_disc eject_needs_force ''disk3'' False
     = (- 119930878, [DADiskEject ''/dev/disk3'' kDADiskEjectOptionDefault])"
    by (simp add: bridging_mount_eject_disc_def)
  from eject_ignores_force [of eject_needs_force "Some ''/dev/disk3''" "''disk3''"] a b
  show ?thesis by simp
qed

end
